theory Spec2Isabelle
  imports Complex_Main "HOL-Library.AList"
begin

section \<open>The export settings of the io\_three add-on\<close>

text \<open>
  A shallow embedding of \<^verbatim>\<open>utils/exporters/blender/addons/io_three/__init__.py\<close>:
  the settings store (\<^verbatim>\<open>save_settings_export\<close>, \<^verbatim>\<open>restore_settings_export\<close>),
  the codec probe (\<^verbatim>\<open>compression_types\<close>) and the export operator's
  \<^verbatim>\<open>execute\<close>.

  Python values are a datatype, exceptions are values of \<open>error\<close>, the operator's
  properties are a record with one field per declared option, and the file system and
  the calls to the exporter are an explicit world that each function takes and returns.
  The declarations of the options give each option its domain, and the outcome of each
  import that the code guards or relies on is a parameter.
\<close>

subsection \<open>Python values and exceptions\<close>

text \<open>
  The values a settings dictionary or a JSON document can hold. A finite float is
  carried as the real number it denotes: the code stores and compares floats, it never
  computes with them. \<open>PInf\<close> and \<open>PNegInf\<close> are the two infinite floats; the float that
  is not a number is left out. A dictionary is an association list in insertion order.
\<close>

datatype pyval =
    PNone
  | PBool bool
  | PInt int
  | PFloat real
  | PInf
  | PNegInf
  | PStr string
  | PList "pyval list"
  | PDict "(string \<times> pyval) list"

type_synonym dict = "(string \<times> pyval) list"

datatype error =
    Exception string
  | KeyError string
  | AttributeError string
  | ValueError string
  | OSError string
  | ImportError string

text \<open>Python's truth value of an object, as \<^verbatim>\<open>if settings[constants.SCENE]:\<close> tests it.\<close>

fun truthy :: "pyval \<Rightarrow> bool" where
  "truthy PNone = False"
| "truthy (PBool b) = b"
| "truthy (PInt i) = (i \<noteq> 0)"
| "truthy (PFloat r) = (r \<noteq> 0)"
| "truthy PInf = True"
| "truthy PNegInf = True"
| "truthy (PStr s) = (s \<noteq> [])"
| "truthy (PList xs) = (xs \<noteq> [])"
| "truthy (PDict kvs) = (kvs \<noteq> [])"

text \<open>
  A dictionary display \<^verbatim>\<open>{k1: v1, k2: v2, ...}\<close> inserts its items from left to right;
  a repeated key keeps its first position and takes the later value.
\<close>

definition py_dict :: "(string \<times> pyval) list \<Rightarrow> dict" where
  "py_dict kvs = fold (\<lambda>(k, v) d. AList.update k v d) kvs []"

text \<open>\<^verbatim>\<open>d.get(k, default)\<close> on a dictionary.\<close>

definition dict_get :: "dict \<Rightarrow> string \<Rightarrow> pyval \<Rightarrow> pyval" where
  "dict_get d k dflt = (case map_of d k of Some v \<Rightarrow> v | None \<Rightarrow> dflt)"

subsection \<open>The constants module\<close>

text \<open>
  Modelled from the spec: \<^verbatim>\<open>constants.py\<close> is imported by the source but is not part of
  the files at hand. The spelling of each settings key is the literal key list of the
  persisted state file in the spec's section on external interfaces; the codec tags
  "none" and "msgpack" and the tags of the other enumerations are the ones of the spec's
  data model. The table \<^verbatim>\<open>constants.EXPORT_OPTIONS\<close> and the
  suffix \<^verbatim>\<open>constants.PACK\<close> are not fixed here: they are fields of the environment below.
\<close>

named_theorems constants_defs

definition VERTICES :: string where
  [constants_defs]: "VERTICES = ''vertices''"  \<comment> \<open>Modelled from the spec: key list\<close>
definition FACES :: string where
  [constants_defs]: "FACES = ''faces''"  \<comment> \<open>Modelled from the spec: key list\<close>
definition NORMALS :: string where
  [constants_defs]: "NORMALS = ''normals''"  \<comment> \<open>Modelled from the spec: key list\<close>
definition SKINNING :: string where
  [constants_defs]: "SKINNING = ''skinning''"  \<comment> \<open>Modelled from the spec: key list\<close>
definition BONES :: string where
  [constants_defs]: "BONES = ''bones''"  \<comment> \<open>Modelled from the spec: key list\<close>
definition INFLUENCES_PER_VERTEX :: string where
  [constants_defs]: "INFLUENCES_PER_VERTEX = ''influencesPerVertex''"  \<comment> \<open>Modelled from the spec: key list\<close>
definition GEOMETRY_TYPE :: string where
  [constants_defs]: "GEOMETRY_TYPE = ''geometryType''"  \<comment> \<open>Modelled from the spec: key list\<close>
definition MATERIALS :: string where
  [constants_defs]: "MATERIALS = ''materials''"  \<comment> \<open>Modelled from the spec: key list\<close>
definition UVS :: string where
  [constants_defs]: "UVS = ''uvCoords''"  \<comment> \<open>Modelled from the spec: key list\<close>
definition FACE_MATERIALS :: string where
  [constants_defs]: "FACE_MATERIALS = ''faceMaterials''"  \<comment> \<open>Modelled from the spec: key list\<close>
definition MAPS :: string where
  [constants_defs]: "MAPS = ''maps''"  \<comment> \<open>Modelled from the spec: key list\<close>
definition COLORS :: string where
  [constants_defs]: "COLORS = ''colors''"  \<comment> \<open>Modelled from the spec: key list\<close>
definition MIX_COLORS :: string where
  [constants_defs]: "MIX_COLORS = ''mixColors''"  \<comment> \<open>Modelled from the spec: key list\<close>
definition SCALE :: string where
  [constants_defs]: "SCALE = ''scale''"  \<comment> \<open>Modelled from the spec: key list\<close>
definition ENABLE_PRECISION :: string where
  [constants_defs]: "ENABLE_PRECISION = ''enablePrecision''"  \<comment> \<open>Modelled from the spec: key list\<close>
definition PRECISION :: string where
  [constants_defs]: "PRECISION = ''precision''"  \<comment> \<open>Modelled from the spec: key list\<close>
definition LOGGING :: string where
  [constants_defs]: "LOGGING = ''logging''"  \<comment> \<open>Modelled from the spec: key list\<close>
definition COMPRESSION :: string where
  [constants_defs]: "COMPRESSION = ''compression''"  \<comment> \<open>Modelled from the spec: key list\<close>
definition INDENT :: string where
  [constants_defs]: "INDENT = ''indent''"  \<comment> \<open>Modelled from the spec: key list\<close>
definition COPY_TEXTURES :: string where
  [constants_defs]: "COPY_TEXTURES = ''copyTextures''"  \<comment> \<open>Modelled from the spec: key list\<close>
definition SCENE :: string where
  [constants_defs]: "SCENE = ''scene''"  \<comment> \<open>Modelled from the spec: key list\<close>
definition EMBED_ANIMATION :: string where
  [constants_defs]: "EMBED_ANIMATION = ''embedAnimation''"  \<comment> \<open>Modelled from the spec: key list\<close>
definition LIGHTS :: string where
  [constants_defs]: "LIGHTS = ''lights''"  \<comment> \<open>Modelled from the spec: key list\<close>
definition CAMERAS :: string where
  [constants_defs]: "CAMERAS = ''cameras''"  \<comment> \<open>Modelled from the spec: key list\<close>
definition MORPH_TARGETS :: string where
  [constants_defs]: "MORPH_TARGETS = ''morphTargets''"  \<comment> \<open>Modelled from the spec: key list\<close>
definition ANIMATION :: string where
  [constants_defs]: "ANIMATION = ''animation''"  \<comment> \<open>Modelled from the spec: key list\<close>
definition FRAME_STEP :: string where
  [constants_defs]: "FRAME_STEP = ''frameStep''"  \<comment> \<open>Modelled from the spec: key list\<close>
definition FRAME_INDEX_AS_TIME :: string where
  [constants_defs]: "FRAME_INDEX_AS_TIME = ''frameIndexAsTime''"  \<comment> \<open>Modelled from the spec: key list\<close>
definition NONE :: string where
  [constants_defs]: "NONE = ''none''"  \<comment> \<open>Modelled from the spec: codec tag\<close>
definition MSGPACK :: string where
  [constants_defs]: "MSGPACK = ''msgpack''"  \<comment> \<open>Modelled from the spec: codec tag\<close>


definition SETTINGS_FILE_EXPORT :: string where
  "SETTINGS_FILE_EXPORT = ''three_settings_export.js''"

subsection \<open>Properties, environment and world\<close>

text \<open>
  The operator's properties: \<^verbatim>\<open>filepath\<close> (from the export helper) and the options
  the class \<^verbatim>\<open>ExportThree\<close> declares, in the order of their declaration. The functions
  of the source read and assign them as attributes; an assignment is a field update.
  What the host's property declarations do with a value on assignment is outside the
  source and is not part of this model.
\<close>

record properties =
  filepath :: string
  option_vertices :: pyval
  option_faces :: pyval
  option_normals :: pyval
  option_colors :: pyval
  option_mix_colors :: pyval
  option_uv_coords :: pyval
  option_materials :: pyval
  option_face_materials :: pyval
  option_maps :: pyval
  option_skinning :: pyval
  option_bones :: pyval
  option_scale :: pyval
  option_round_off :: pyval
  option_round_value :: pyval
  option_logging :: pyval
  option_geometry_type :: pyval
  option_export_scene :: pyval
  option_embed_animation :: pyval
  option_copy_textures :: pyval
  option_lights :: pyval
  option_cameras :: pyval
  option_animation_morph :: pyval
  option_animation_skeletal :: pyval
  option_frame_index_as_time :: pyval
  option_frame_step :: pyval
  option_indent :: pyval
  option_compression :: pyval
  option_influences :: pyval

text \<open>
  What the code takes from outside itself:
  \<^item> \<open>tempdir\<close> is \<^verbatim>\<open>bpy.app.tempdir\<close>;
  \<^item> \<open>EXPORT_OPTIONS\<close> and \<open>PACK\<close> are the table and the suffix of the constants module;
  \<^item> \<open>import_msgpack\<close> is the outcome of \<^verbatim>\<open>import msgpack\<close> and \<open>import_exporter\<close> the
    outcome of \<^verbatim>\<open>from io_three import exporter\<close>: \<open>None\<close> when the import succeeds,
    the exception it raises otherwise;
  \<^item> \<open>json_dump\<close> is the text \<^verbatim>\<open>json.dump\<close> writes, \<open>json_load\<close> is what \<^verbatim>\<open>json.load\<close>
    returns or raises on a text;
  \<^item> \<open>r_ok p\<close> is \<^verbatim>\<open>os.access(p, os.R_OK)\<close> for an existing \<open>p\<close>, \<open>w_ok p\<close> tells
    whether \<^verbatim>\<open>open(p, 'w')\<close> succeeds;
  \<^item> \<open>export_scene\<close> and \<open>export_geometry\<close> are the two functions of the exporter
    package: each takes the path, the settings and the files, and gives back the files
    as it leaves them and the exception it raised, if any.
\<close>

record env =
  tempdir :: string
  EXPORT_OPTIONS :: dict
  PACK :: string
  import_msgpack :: "error option"
  import_exporter :: "error option"
  json_dump :: "pyval \<Rightarrow> string"
  json_load :: "string \<Rightarrow> error + pyval"
  r_ok :: "string \<Rightarrow> bool"
  w_ok :: "string \<Rightarrow> bool"
  export_scene :: "string \<Rightarrow> dict \<Rightarrow> (string \<rightharpoonup> string) \<Rightarrow> (string \<rightharpoonup> string) \<times> error option"
  export_geometry :: "string \<Rightarrow> dict \<Rightarrow> (string \<rightharpoonup> string) \<Rightarrow> (string \<rightharpoonup> string) \<times> error option"

text \<open>
  The world: the text of every file, by path, and the trace of the effects of one
  run, oldest first.
\<close>

datatype event =
    Wrote string string
  | Called_export_scene string dict
  | Called_export_geometry string dict

record world =
  files :: "string \<rightharpoonup> string"
  trace :: "event list"

subsection \<open>The settings file\<close>

text \<open>\<^verbatim>\<open>os.path.join(a, b)\<close> with the separator \<^verbatim>\<open>/\<close>.\<close>

definition path_join :: "string \<Rightarrow> string \<Rightarrow> string" where
  "path_join a b =
     (if b \<noteq> [] \<and> hd b = CHR ''/'' then b
      else if a = [] \<or> last a = CHR ''/'' then a @ b
      else a @ ''/'' @ b)"

definition get_settings_fullpath :: "env \<Rightarrow> string" where
  "get_settings_fullpath e = path_join (tempdir e) SETTINGS_FILE_EXPORT"

text \<open>The dictionary \<^verbatim>\<open>settings\<close> that \<^verbatim>\<open>save_settings_export\<close> builds, item by item.\<close>

definition settings_dict :: "properties \<Rightarrow> dict" where
  "settings_dict p = py_dict
     [(VERTICES, option_vertices p),
      (FACES, option_faces p),
      (NORMALS, option_normals p),
      (SKINNING, option_skinning p),
      (BONES, option_bones p),
      (GEOMETRY_TYPE, option_geometry_type p),
      (MATERIALS, option_materials p),
      (UVS, option_uv_coords p),
      (FACE_MATERIALS, option_face_materials p),
      (MAPS, option_maps p),
      (COLORS, option_colors p),
      (MIX_COLORS, option_mix_colors p),
      (SCALE, option_scale p),
      (ENABLE_PRECISION, option_round_off p),
      (PRECISION, option_round_value p),
      (LOGGING, option_logging p),
      (COMPRESSION, option_compression p),
      (INDENT, option_indent p),
      (COPY_TEXTURES, option_copy_textures p),
      (SCENE, option_export_scene p),
      (EMBED_ANIMATION, option_embed_animation p),
      (LIGHTS, option_lights p),
      (CAMERAS, option_cameras p),
      (MORPH_TARGETS, option_animation_morph p),
      (ANIMATION, option_animation_skeletal p),
      (FRAME_STEP, option_frame_step p),
      (FRAME_INDEX_AS_TIME, option_frame_index_as_time p),
      (INFLUENCES_PER_VERTEX, option_influences p)]"

text \<open>
  \<^verbatim>\<open>save_settings_export\<close>: build the dictionary, open the settings file for writing
  (an error of \<^verbatim>\<open>open\<close> leaves the world as it was), write the JSON text, return the
  dictionary.
\<close>

definition save_settings_export :: "env \<Rightarrow> world \<Rightarrow> properties \<Rightarrow> world \<times> (error + dict)" where
  "save_settings_export e w p =
     (let settings = settings_dict p;
          fname = get_settings_fullpath e
      in if w_ok e fname
         then (w\<lparr>files := (files w)(fname \<mapsto> json_dump e (PDict settings)),
                 trace := trace w @ [Wrote fname (json_dump e (PDict settings))]\<rparr>,
               Inr settings)
         else (w, Inl (OSError fname)))"

text \<open>
  The first part of \<^verbatim>\<open>restore_settings_export\<close>: \<^verbatim>\<open>settings = {}\<close>, replaced by the
  parsed file when the file exists and is readable.
\<close>

definition read_settings :: "env \<Rightarrow> world \<Rightarrow> error + pyval" where
  "read_settings e w =
     (let fname = get_settings_fullpath e
      in case files w fname of
           Some text \<Rightarrow> if r_ok e fname then json_load e text else Inr (PDict [])
         | None \<Rightarrow> Inr (PDict []))"

text \<open>
  One statement \<^verbatim>\<open>properties.option_x = settings.get(K, constants.EXPORT_OPTIONS[K])\<close>.
  Python looks up \<^verbatim>\<open>settings.get\<close> first (an object that is no dictionary has no such
  attribute), then evaluates the default (a key missing from the table raises), then
  calls and assigns. A statement that raises leaves the properties as they are.
\<close>

type_synonym stmt = "properties \<Rightarrow> properties \<times> error option"

definition assign_option :: "env \<Rightarrow> pyval \<Rightarrow> string \<Rightarrow> (pyval \<Rightarrow> properties \<Rightarrow> properties) \<Rightarrow> stmt" where
  "assign_option e settings k set_field p =
     (case settings of
        PDict d \<Rightarrow>
          (case map_of (EXPORT_OPTIONS e) k of
             None \<Rightarrow> (p, Some (KeyError k))
           | Some dflt \<Rightarrow> (set_field (dict_get d k dflt) p, None))
      | _ \<Rightarrow> (p, Some (AttributeError ''get'')))"

text \<open>The statement for the compression option, whose default is \<^verbatim>\<open>constants.NONE\<close>.\<close>

definition assign_compression :: "pyval \<Rightarrow> stmt" where
  "assign_compression settings p =
     (case settings of
        PDict d \<Rightarrow> (p\<lparr>option_compression := dict_get d COMPRESSION (PStr NONE)\<rparr>, None)
      | _ \<Rightarrow> (p, Some (AttributeError ''get'')))"

text \<open>Statements run in order; the first exception ends the run.\<close>

fun run_stmts :: "stmt list \<Rightarrow> stmt" where
  "run_stmts [] p = (p, None)"
| "run_stmts (s # ss) p =
     (case s p of
        (p', None) \<Rightarrow> run_stmts ss p'
      | (p', Some err) \<Rightarrow> (p', Some err))"

definition restore_stmts :: "env \<Rightarrow> pyval \<Rightarrow> stmt list" where
  "restore_stmts e settings =
     [assign_option e settings VERTICES (\<lambda>v p. p\<lparr>option_vertices := v\<rparr>),
      assign_option e settings FACES (\<lambda>v p. p\<lparr>option_faces := v\<rparr>),
      assign_option e settings NORMALS (\<lambda>v p. p\<lparr>option_normals := v\<rparr>),
      assign_option e settings SKINNING (\<lambda>v p. p\<lparr>option_skinning := v\<rparr>),
      assign_option e settings BONES (\<lambda>v p. p\<lparr>option_bones := v\<rparr>),
      assign_option e settings INFLUENCES_PER_VERTEX (\<lambda>v p. p\<lparr>option_influences := v\<rparr>),
      assign_option e settings GEOMETRY_TYPE (\<lambda>v p. p\<lparr>option_geometry_type := v\<rparr>),
      assign_option e settings MATERIALS (\<lambda>v p. p\<lparr>option_materials := v\<rparr>),
      assign_option e settings UVS (\<lambda>v p. p\<lparr>option_uv_coords := v\<rparr>),
      assign_option e settings FACE_MATERIALS (\<lambda>v p. p\<lparr>option_face_materials := v\<rparr>),
      assign_option e settings MAPS (\<lambda>v p. p\<lparr>option_maps := v\<rparr>),
      assign_option e settings COLORS (\<lambda>v p. p\<lparr>option_colors := v\<rparr>),
      assign_option e settings MIX_COLORS (\<lambda>v p. p\<lparr>option_mix_colors := v\<rparr>),
      assign_option e settings SCALE (\<lambda>v p. p\<lparr>option_scale := v\<rparr>),
      assign_option e settings ENABLE_PRECISION (\<lambda>v p. p\<lparr>option_round_off := v\<rparr>),
      assign_option e settings PRECISION (\<lambda>v p. p\<lparr>option_round_value := v\<rparr>),
      assign_option e settings LOGGING (\<lambda>v p. p\<lparr>option_logging := v\<rparr>),
      assign_compression settings,
      assign_option e settings INDENT (\<lambda>v p. p\<lparr>option_indent := v\<rparr>),
      assign_option e settings COPY_TEXTURES (\<lambda>v p. p\<lparr>option_copy_textures := v\<rparr>),
      assign_option e settings EMBED_ANIMATION (\<lambda>v p. p\<lparr>option_embed_animation := v\<rparr>),
      assign_option e settings SCENE (\<lambda>v p. p\<lparr>option_export_scene := v\<rparr>),
      assign_option e settings LIGHTS (\<lambda>v p. p\<lparr>option_lights := v\<rparr>),
      assign_option e settings CAMERAS (\<lambda>v p. p\<lparr>option_cameras := v\<rparr>),
      assign_option e settings MORPH_TARGETS (\<lambda>v p. p\<lparr>option_animation_morph := v\<rparr>),
      assign_option e settings ANIMATION (\<lambda>v p. p\<lparr>option_animation_skeletal := v\<rparr>),
      assign_option e settings FRAME_STEP (\<lambda>v p. p\<lparr>option_frame_step := v\<rparr>),
      assign_option e settings FRAME_INDEX_AS_TIME (\<lambda>v p. p\<lparr>option_frame_index_as_time := v\<rparr>)]"

text \<open>
  \<^verbatim>\<open>restore_settings_export\<close>: the properties as the function leaves them, and the
  exception it raised, if any. An exception of \<^verbatim>\<open>json.load\<close> is not caught.
\<close>

definition restore_settings_export :: "env \<Rightarrow> world \<Rightarrow> properties \<Rightarrow> properties \<times> error option" where
  "restore_settings_export e w p =
     (case read_settings e w of
        Inl err \<Rightarrow> (p, Some err)
      | Inr settings \<Rightarrow> run_stmts (restore_stmts e settings) p)"

subsection \<open>The codec probe\<close>


subsection \<open>The export operator\<close>

text \<open>
  The path computation of \<^verbatim>\<open>execute\<close>: with the msgpack codec the path loses its last
  four characters (\<^verbatim>\<open>filepath[:-4]\<close>, the empty string for a shorter path) and gets
  \<^verbatim>\<open>constants.PACK\<close> appended.
\<close>

definition resolve_filepath :: "env \<Rightarrow> string \<Rightarrow> pyval \<Rightarrow> string" where
  "resolve_filepath e fp compression =
     (if compression = PStr MSGPACK then take (length fp - 4) fp @ PACK e else fp)"

text \<open>A call of one of the exporter's functions: it is recorded in the trace.\<close>

definition call_exporter ::
  "(string \<Rightarrow> dict \<Rightarrow> event) \<Rightarrow> (string \<Rightarrow> dict \<Rightarrow> (string \<rightharpoonup> string) \<Rightarrow> (string \<rightharpoonup> string) \<times> error option)
     \<Rightarrow> string \<Rightarrow> dict \<Rightarrow> world \<Rightarrow> world \<times> error option" where
  "call_exporter ev f fp settings w =
     (case f fp settings (files w) of
        (fs', r) \<Rightarrow> (\<lparr>files = fs', trace = trace w @ [ev fp settings]\<rparr>, r))"

text \<open>
  \<^verbatim>\<open>ExportThree.execute\<close>. The result \<open>None\<close> stands for the return of
  \<^verbatim>\<open>{'FINISHED'}\<close>; \<^verbatim>\<open>self.filepath\<close> and \<^verbatim>\<open>self.properties.filepath\<close> are the same property.
  The import of the exporter package stands between the path computation and the test of
  the scene flag; when it raises, no function of the exporter is called.
\<close>

definition execute :: "env \<Rightarrow> world \<Rightarrow> properties \<Rightarrow> world \<times> error option" where
  "execute e w p =
     (if filepath p = [] then (w, Some (Exception ''filename not set''))
      else case save_settings_export e w p of
        (w1, Inl err) \<Rightarrow> (w1, Some err)
      | (w1, Inr settings) \<Rightarrow>
          (case map_of settings COMPRESSION of
             None \<Rightarrow> (w1, Some (KeyError COMPRESSION))
           | Some c \<Rightarrow>
               (let fp = resolve_filepath e (filepath p) c
                in case import_exporter e of
                     Some err \<Rightarrow> (w1, Some err)
                   | None \<Rightarrow>
                       (case map_of settings SCENE of
                          None \<Rightarrow> (w1, Some (KeyError SCENE))
                        | Some s \<Rightarrow>
                            if truthy s
                            then call_exporter Called_export_scene (export_scene e) fp settings w1
                            else call_exporter Called_export_geometry (export_geometry e) fp settings
                                   w1))))"

subsection \<open>The declared options\<close>








subsection \<open>JSON texts\<close>

text \<open>
  The grammar of JSON (RFC 8259) as a recogniser on the characters of a text: each
  function consumes one construct and returns the rest of the text, or \<open>None\<close> when the
  construct is not there. A character is a byte; a byte from \<open>0x80\<close> on counts as part
  of a character of a string. The first argument of \<open>skip_value\<close> bounds the nesting and
  the number of members of the value; a text is valid when some bound recognises it.
\<close>

definition json_ws :: "char \<Rightarrow> bool" where
  "json_ws c = (c = CHR '' '' \<or> c = CHR 0x09 \<or> c = CHR 0x0A \<or> c = CHR 0x0D)"

definition skip_ws :: "string \<Rightarrow> string" where
  "skip_ws cs = dropWhile json_ws cs"

definition json_digit :: "char \<Rightarrow> bool" where
  "json_digit c = (c \<in> set ''0123456789'')"

definition json_hex :: "char \<Rightarrow> bool" where
  "json_hex c = (c \<in> set ''0123456789abcdefABCDEF'')"

text \<open>The characters of a string after its opening quotation mark, up to the closing one.\<close>

fun skip_chars :: "string \<Rightarrow> string option" where
  "skip_chars [] = None"
| "skip_chars (c # cs) =
     (if c = CHR 0x22 then Some cs
      else if c = CHR 0x5C then
        (case cs of
           [] \<Rightarrow> None
         | x # r \<Rightarrow>
             if x \<in> set [CHR 0x22, CHR 0x5C, CHR ''/'', CHR ''b'', CHR ''f'', CHR ''n'', CHR ''r'', CHR ''t'']
             then skip_chars r
             else if x = CHR ''u'' then
               (case r of
                  h1 # h2 # h3 # h4 # r' \<Rightarrow>
                    if json_hex h1 \<and> json_hex h2 \<and> json_hex h3 \<and> json_hex h4
                    then skip_chars r' else None
                | _ \<Rightarrow> None)
             else None)
      else if (of_char c :: nat) < 0x20 then None
      else skip_chars cs)"

definition skip_digits1 :: "string \<Rightarrow> string option" where
  "skip_digits1 cs =
     (case cs of
        c # r \<Rightarrow> if json_digit c then Some (dropWhile json_digit r) else None
      | [] \<Rightarrow> None)"

definition skip_int :: "string \<Rightarrow> string option" where
  "skip_int cs =
     (case cs of
        c # r \<Rightarrow>
          if c = CHR ''0'' then Some r
          else if json_digit c then Some (dropWhile json_digit r)
          else None
      | [] \<Rightarrow> None)"

definition skip_frac :: "string \<Rightarrow> string option" where
  "skip_frac cs =
     (case cs of
        c # r \<Rightarrow> if c = CHR ''.'' then skip_digits1 r else Some cs
      | [] \<Rightarrow> Some cs)"

definition skip_exp :: "string \<Rightarrow> string option" where
  "skip_exp cs =
     (case cs of
        c # r \<Rightarrow>
          if c = CHR ''e'' \<or> c = CHR ''E'' then
            (case r of
               s # r' \<Rightarrow> if s = CHR ''+'' \<or> s = CHR ''-'' then skip_digits1 r' else skip_digits1 r
             | [] \<Rightarrow> None)
          else Some cs
      | [] \<Rightarrow> Some cs)"

definition skip_number :: "string \<Rightarrow> string option" where
  "skip_number cs =
     (case skip_int (case cs of c # r \<Rightarrow> if c = CHR ''-'' then r else cs | [] \<Rightarrow> cs) of
        None \<Rightarrow> None
      | Some r1 \<Rightarrow> (case skip_frac r1 of None \<Rightarrow> None | Some r2 \<Rightarrow> skip_exp r2))"

definition skip_literal :: "string \<Rightarrow> string \<Rightarrow> string option" where
  "skip_literal lit cs =
     (if take (length lit) cs = lit then Some (drop (length lit) cs) else None)"

fun skip_value :: "nat \<Rightarrow> string \<Rightarrow> string option"
  and skip_members :: "nat \<Rightarrow> string \<Rightarrow> string option"
  and skip_elements :: "nat \<Rightarrow> string \<Rightarrow> string option" where
  "skip_value 0 cs = None"
| "skip_value (Suc n) cs =
     (case cs of
        [] \<Rightarrow> None
      | c # r \<Rightarrow>
          if c = CHR ''{'' then
            (case skip_ws r of
               [] \<Rightarrow> None
             | x # r' \<Rightarrow> if x = CHR ''}'' then Some r' else skip_members n (x # r'))
          else if c = CHR ''['' then
            (case skip_ws r of
               [] \<Rightarrow> None
             | x # r' \<Rightarrow> if x = CHR '']'' then Some r' else skip_elements n (x # r'))
          else if c = CHR 0x22 then skip_chars r
          else if c = CHR ''t'' then skip_literal ''true'' cs
          else if c = CHR ''f'' then skip_literal ''false'' cs
          else if c = CHR ''n'' then skip_literal ''null'' cs
          else skip_number cs)"
| "skip_members 0 cs = None"
| "skip_members (Suc n) cs =
     (case cs of
        [] \<Rightarrow> None
      | q # r \<Rightarrow>
          if q \<noteq> CHR 0x22 then None
          else (case skip_chars r of
                  None \<Rightarrow> None
                | Some r1 \<Rightarrow>
                    (case skip_ws r1 of
                       [] \<Rightarrow> None
                     | x # r2 \<Rightarrow>
                         if x \<noteq> CHR '':'' then None
                         else (case skip_value n (skip_ws r2) of
                                 None \<Rightarrow> None
                               | Some r3 \<Rightarrow>
                                   (case skip_ws r3 of
                                      [] \<Rightarrow> None
                                    | y # r4 \<Rightarrow>
                                        if y = CHR '','' then skip_members n (skip_ws r4)
                                        else if y = CHR ''}'' then Some r4
                                        else None)))))"
| "skip_elements 0 cs = None"
| "skip_elements (Suc n) cs =
     (case skip_value n cs of
        None \<Rightarrow> None
      | Some r1 \<Rightarrow>
          (case skip_ws r1 of
             [] \<Rightarrow> None
           | y # r2 \<Rightarrow>
               if y = CHR '','' then skip_elements n (skip_ws r2)
               else if y = CHR '']'' then Some r2
               else None))"

definition json_text :: "nat \<Rightarrow> string \<Rightarrow> bool" where
  "json_text n cs =
     (case skip_value n (skip_ws cs) of None \<Rightarrow> False | Some r \<Rightarrow> skip_ws r = [])"

definition valid_json :: "string \<Rightarrow> bool" where
  "valid_json cs = (\<exists>n. json_text n cs)"

subsection \<open>The defaults table\<close>

text \<open>
  The keys that \<^verbatim>\<open>restore_settings_export\<close> looks up in \<^verbatim>\<open>constants.EXPORT_OPTIONS\<close>, in
  the order of its statements, and the condition that the table has them all, under
  which none of the lookups raises.
\<close>

definition default_keys :: "string list" where
  "default_keys = [VERTICES, FACES, NORMALS, SKINNING, BONES, INFLUENCES_PER_VERTEX, GEOMETRY_TYPE, MATERIALS, UVS, FACE_MATERIALS, MAPS, COLORS, MIX_COLORS, SCALE, ENABLE_PRECISION, PRECISION, LOGGING, INDENT, COPY_TEXTURES, EMBED_ANIMATION, SCENE, LIGHTS, CAMERAS, MORPH_TARGETS, ANIMATION, FRAME_STEP, FRAME_INDEX_AS_TIME]"

definition catalog_complete :: "env \<Rightarrow> bool" where
  "catalog_complete e = (\<forall>k \<in> set default_keys. map_of (EXPORT_OPTIONS e) k \<noteq> None)"

definition default_of :: "env \<Rightarrow> string \<Rightarrow> pyval" where
  "default_of e k = the (map_of (EXPORT_OPTIONS e) k)"

subsection \<open>A concrete environment\<close>

text \<open>
  One set of properties, its settings written out, one defaults table and one
  environment, on which the theorems below are evaluated. In the environment msgpack
  is not installed and the exporter package imports; the JSON functions know three texts:
  the one that stands for the example settings, the one of a file that holds the scale
  alone, and a text with the constant \<^verbatim>\<open>Infinity\<close>, which \<^verbatim>\<open>json.load\<close> reads as the
  infinite float; they reject every other text. The scene exporter writes its output
  file; the geometry exporter fails without touching a file.
\<close>

definition example_props :: properties where
  "example_props =
     \<lparr>filepath = ''model.json'',
      option_vertices = PBool True, option_faces = PBool True, option_normals = PBool True,
      option_colors = PBool False, option_mix_colors = PBool False, option_uv_coords = PBool True,
      option_materials = PBool False, option_face_materials = PBool False, option_maps = PBool False,
      option_skinning = PBool False, option_bones = PBool False, option_scale = PFloat 2,
      option_round_off = PBool True, option_round_value = PInt 6, option_logging = PStr ''debug'',
      option_geometry_type = PStr ''geometry'', option_export_scene = PBool False,
      option_embed_animation = PBool True, option_copy_textures = PBool True,
      option_lights = PBool False, option_cameras = PBool False,
      option_animation_morph = PBool False, option_animation_skeletal = PStr ''off'',
      option_frame_index_as_time = PBool False, option_frame_step = PInt 1,
      option_indent = PBool True, option_compression = PStr MSGPACK, option_influences = PInt 2\<rparr>"

definition example_settings :: dict where
  "example_settings =
     [(''vertices'', PBool True), (''faces'', PBool True), (''normals'', PBool True),
      (''skinning'', PBool False), (''bones'', PBool False), (''geometryType'', PStr ''geometry''),
      (''materials'', PBool False), (''uvCoords'', PBool True), (''faceMaterials'', PBool False),
      (''maps'', PBool False), (''colors'', PBool False), (''mixColors'', PBool False),
      (''scale'', PFloat 2), (''enablePrecision'', PBool True), (''precision'', PInt 6),
      (''logging'', PStr ''debug''), (''compression'', PStr ''msgpack''), (''indent'', PBool True),
      (''copyTextures'', PBool True), (''scene'', PBool False), (''embedAnimation'', PBool True),
      (''lights'', PBool False), (''cameras'', PBool False), (''morphTargets'', PBool False),
      (''animation'', PStr ''off''), (''frameStep'', PInt 1), (''frameIndexAsTime'', PBool False),
      (''influencesPerVertex'', PInt 2)]"

definition example_options :: dict where
  "example_options =
     [(FACES, PBool True), (VERTICES, PBool True), (NORMALS, PBool True), (UVS, PBool True),
      (COLORS, PBool False), (MATERIALS, PBool False), (FACE_MATERIALS, PBool False),
      (SCALE, PFloat 1), (FRAME_STEP, PInt 1), (FRAME_INDEX_AS_TIME, PBool False),
      (SCENE, PBool False), (MIX_COLORS, PBool False), (COMPRESSION, PStr NONE),
      (MAPS, PBool False), (ANIMATION, PStr ''off''), (BONES, PBool False),
      (SKINNING, PBool False), (MORPH_TARGETS, PBool False), (CAMERAS, PBool False),
      (LIGHTS, PBool False), (COPY_TEXTURES, PBool True), (LOGGING, PStr ''debug''),
      (ENABLE_PRECISION, PBool True), (PRECISION, PInt 6), (EMBED_ANIMATION, PBool True),
      (GEOMETRY_TYPE, PStr ''geometry''), (INFLUENCES_PER_VERTEX, PInt 2), (INDENT, PBool True)]"

definition example_env :: env where
  "example_env =
     \<lparr>tempdir = ''/tmp/'',
      EXPORT_OPTIONS = example_options,
      PACK = ''pack'',
      import_msgpack = Some (ImportError ''No module named msgpack''),
      import_exporter = None,
      json_dump = (\<lambda>v. if v = PDict example_settings then ''saved'' else ''other''),
      json_load = (\<lambda>t. if t = ''saved'' then Inr (PDict example_settings)
                        else if t = ''partial'' then Inr (PDict [(SCALE, PFloat 3)])
                        else if t = ''{\"extra\": Infinity}'' then Inr (PDict [(''extra'', PInf)])
                        else Inl (ValueError t)),
      r_ok = (\<lambda>_. True),
      w_ok = (\<lambda>_. True),
      export_scene = (\<lambda>fp s fs. (fs(fp \<mapsto> ''scene''), None)),
      export_geometry = (\<lambda>fp s fs. (fs, Some (OSError fp)))\<rparr>"

definition example_world :: "string \<Rightarrow> world" where
  "example_world t = \<lparr>files = [''/tmp/three_settings_export.js'' \<mapsto> t], trace = []\<rparr>"

section \<open>Properties of the code\<close>

subsection \<open>Dictionaries\<close>

lemma update_fresh: "k \<notin> fst ` set al \<Longrightarrow> AList.update k v al = al @ [(k, v)]"
  by (induction al) auto

lemma fold_update_distinct:
  "distinct (map fst (acc @ kvs)) \<Longrightarrow> fold (\<lambda>(k, v) d. AList.update k v d) kvs acc = acc @ kvs"
proof (induction kvs arbitrary: acc)
  case Nil
  then show ?case by simp
next
  case (Cons kv kvs)
  obtain k v where kv: "kv = (k, v)" by (cases kv)
  from Cons.prems kv have fresh: "k \<notin> fst ` set acc" by auto
  from Cons.prems kv have "distinct (map fst ((acc @ [(k, v)]) @ kvs))" by simp
  from Cons.IH [OF this] fresh kv show ?case by (simp add: update_fresh)
qed

lemma py_dict_distinct: "distinct (map fst kvs) \<Longrightarrow> py_dict kvs = kvs"
  using fold_update_distinct [of "[]" kvs] by (simp add: py_dict_def)

lemma settings_dict_items:
  "settings_dict p =
     [(VERTICES, option_vertices p),
      (FACES, option_faces p),
      (NORMALS, option_normals p),
      (SKINNING, option_skinning p),
      (BONES, option_bones p),
      (GEOMETRY_TYPE, option_geometry_type p),
      (MATERIALS, option_materials p),
      (UVS, option_uv_coords p),
      (FACE_MATERIALS, option_face_materials p),
      (MAPS, option_maps p),
      (COLORS, option_colors p),
      (MIX_COLORS, option_mix_colors p),
      (SCALE, option_scale p),
      (ENABLE_PRECISION, option_round_off p),
      (PRECISION, option_round_value p),
      (LOGGING, option_logging p),
      (COMPRESSION, option_compression p),
      (INDENT, option_indent p),
      (COPY_TEXTURES, option_copy_textures p),
      (SCENE, option_export_scene p),
      (EMBED_ANIMATION, option_embed_animation p),
      (LIGHTS, option_lights p),
      (CAMERAS, option_cameras p),
      (MORPH_TARGETS, option_animation_morph p),
      (ANIMATION, option_animation_skeletal p),
      (FRAME_STEP, option_frame_step p),
      (FRAME_INDEX_AS_TIME, option_frame_index_as_time p),
      (INFLUENCES_PER_VERTEX, option_influences p)]"
  unfolding settings_dict_def
  by (rule py_dict_distinct) (simp add: constants_defs)

lemma settings_compression: "map_of (settings_dict p) COMPRESSION = Some (option_compression p)"
  by (simp add: settings_dict_items constants_defs)

lemma settings_scene: "map_of (settings_dict p) SCENE = Some (option_export_scene p)"
  by (simp add: settings_dict_items constants_defs)

subsection \<open>The statements of the restore\<close>

lemma assign_option_present:
  "map_of (EXPORT_OPTIONS e) k = Some dv \<Longrightarrow>
   assign_option e (PDict d) k f p = (f (dict_get d k dv) p, None)"
  by (simp add: assign_option_def)

lemma catalog_completeD:
  "catalog_complete e \<Longrightarrow> k \<in> set default_keys \<Longrightarrow>
   map_of (EXPORT_OPTIONS e) k = Some (default_of e k)"
  by (auto simp: catalog_complete_def default_of_def)

lemma assign_option_complete:
  "catalog_complete e \<Longrightarrow> k \<in> set default_keys \<Longrightarrow>
   assign_option e (PDict d) k f p = (f (dict_get d k (default_of e k)) p, None)"
  by (simp add: assign_option_present catalog_completeD)

lemma restore_stmts_run:
  assumes "catalog_complete e"
  shows "run_stmts (restore_stmts e (PDict d)) p =
     (p\<lparr>option_vertices := dict_get d VERTICES (default_of e VERTICES),
        option_faces := dict_get d FACES (default_of e FACES),
        option_normals := dict_get d NORMALS (default_of e NORMALS),
        option_skinning := dict_get d SKINNING (default_of e SKINNING),
        option_bones := dict_get d BONES (default_of e BONES),
        option_influences := dict_get d INFLUENCES_PER_VERTEX (default_of e INFLUENCES_PER_VERTEX),
        option_geometry_type := dict_get d GEOMETRY_TYPE (default_of e GEOMETRY_TYPE),
        option_materials := dict_get d MATERIALS (default_of e MATERIALS),
        option_uv_coords := dict_get d UVS (default_of e UVS),
        option_face_materials := dict_get d FACE_MATERIALS (default_of e FACE_MATERIALS),
        option_maps := dict_get d MAPS (default_of e MAPS),
        option_colors := dict_get d COLORS (default_of e COLORS),
        option_mix_colors := dict_get d MIX_COLORS (default_of e MIX_COLORS),
        option_scale := dict_get d SCALE (default_of e SCALE),
        option_round_off := dict_get d ENABLE_PRECISION (default_of e ENABLE_PRECISION),
        option_round_value := dict_get d PRECISION (default_of e PRECISION),
        option_logging := dict_get d LOGGING (default_of e LOGGING),
        option_compression := dict_get d COMPRESSION (PStr NONE),
        option_indent := dict_get d INDENT (default_of e INDENT),
        option_copy_textures := dict_get d COPY_TEXTURES (default_of e COPY_TEXTURES),
        option_embed_animation := dict_get d EMBED_ANIMATION (default_of e EMBED_ANIMATION),
        option_export_scene := dict_get d SCENE (default_of e SCENE),
        option_lights := dict_get d LIGHTS (default_of e LIGHTS),
        option_cameras := dict_get d CAMERAS (default_of e CAMERAS),
        option_animation_morph := dict_get d MORPH_TARGETS (default_of e MORPH_TARGETS),
        option_animation_skeletal := dict_get d ANIMATION (default_of e ANIMATION),
        option_frame_step := dict_get d FRAME_STEP (default_of e FRAME_STEP),
        option_frame_index_as_time := dict_get d FRAME_INDEX_AS_TIME (default_of e FRAME_INDEX_AS_TIME)\<rparr>, None)"
  unfolding restore_stmts_def
  by (simp add: assign_option_complete [OF assms] default_keys_def assign_compression_def)

subsection \<open>Saving\<close>

lemma save_ok:
  "w_ok e (get_settings_fullpath e) \<Longrightarrow>
   save_settings_export e w p =
     (w\<lparr>files := (files w)(get_settings_fullpath e \<mapsto> json_dump e (PDict (settings_dict p))),
        trace := trace w @ [Wrote (get_settings_fullpath e) (json_dump e (PDict (settings_dict p)))]\<rparr>,
      Inr (settings_dict p))"
  by (simp add: save_settings_export_def Let_def)

lemma settings_keys:
  "map fst (settings_dict p) =
     [''vertices'', ''faces'', ''normals'', ''skinning'', ''bones'', ''geometryType'',
      ''materials'', ''uvCoords'', ''faceMaterials'', ''maps'', ''colors'', ''mixColors'',
      ''scale'', ''enablePrecision'', ''precision'', ''logging'', ''compression'', ''indent'',
      ''copyTextures'', ''scene'', ''embedAnimation'', ''lights'', ''cameras'', ''morphTargets'',
      ''animation'', ''frameStep'', ''frameIndexAsTime'', ''influencesPerVertex'']"
  by (simp add: settings_dict_items constants_defs)

lemma example_fullpath: "get_settings_fullpath example_env = ''/tmp/three_settings_export.js''"
  by (simp add: get_settings_fullpath_def path_join_def SETTINGS_FILE_EXPORT_def example_env_def)

lemma example_settings_eq: "settings_dict example_props = example_settings"
  by (simp add: settings_dict_items example_props_def example_settings_def constants_defs)

lemma example_dump: "json_dump example_env (PDict (settings_dict example_props)) = ''saved''"
  by (simp add: example_settings_eq example_env_def)

lemma example_load: "json_load example_env ''saved'' = Inr (PDict (settings_dict example_props))"
  by (simp add: example_settings_eq example_env_def)

lemma example_import: "import_exporter example_env = None"
  by (simp add: example_env_def)

lemma example_complete: "catalog_complete example_env"
  by (simp add: catalog_complete_def default_keys_def example_env_def example_options_def
      constants_defs)

section \<open>The claims\<close>

text \<open>
  C3. For every requested path \<open>p\<close>, the path computed for the codec "none" is \<open>p\<close>
  itself, and the path computed for the codec "msgpack" is \<open>p\<close> without its last four
  characters, followed by the pack suffix. For \<^verbatim>\<open>model.json\<close> the first is
  \<^verbatim>\<open>model.json\<close>, and the second is \<^verbatim>\<open>model.pack\<close> exactly when the suffix
  \<^verbatim>\<open>constants.PACK\<close> is \<^verbatim>\<open>pack\<close>.
\<close>

theorem resolve_filepath_spec:
  "resolve_filepath e p (PStr NONE) = p
   \<and> resolve_filepath e p (PStr MSGPACK) = take (length p - 4) p @ PACK e
   \<and> resolve_filepath e ''model.json'' (PStr NONE) = ''model.json''
   \<and> (resolve_filepath e ''model.json'' (PStr MSGPACK) = ''model.pack'' \<longleftrightarrow> PACK e = ''pack'')"
  by (auto simp add: resolve_filepath_def constants_defs)

theorem resolve_filepath_spec_witness:
  "resolve_filepath example_env ''model.json'' (PStr MSGPACK) = ''model.pack''
   \<and> PACK example_env = ''pack''"
  using resolve_filepath_spec [of example_env "''model.json''"]
  by (simp add: example_env_def)



text \<open>
  C6. With an empty \<^verbatim>\<open>filepath\<close>, \<^verbatim>\<open>execute\<close> raises "filename not set" and the world
  is untouched: no file is written and no exporter function is called.
\<close>

theorem execute_missing_destination:
  "filepath p = [] \<Longrightarrow> execute e w p = (w, Some (Exception ''filename not set''))"
  by (simp add: execute_def)

theorem execute_missing_destination_witness:
  "filepath (example_props\<lparr>filepath := []\<rparr>) = []
   \<and> execute example_env (example_world ''saved'') (example_props\<lparr>filepath := []\<rparr>)
       = (example_world ''saved'', Some (Exception ''filename not set''))"
  using execute_missing_destination [of "example_props\<lparr>filepath := []\<rparr>" example_env "example_world ''saved''"]
  by simp

lemma execute_ok:
  assumes "filepath p \<noteq> []" and "w_ok e (get_settings_fullpath e)"
    and "import_exporter e = None"
  shows "execute e w p =
     (let fname = get_settings_fullpath e;
          text = json_dump e (PDict (settings_dict p));
          w1 = w\<lparr>files := (files w)(fname \<mapsto> text), trace := trace w @ [Wrote fname text]\<rparr>;
          fp = resolve_filepath e (filepath p) (option_compression p)
      in if truthy (option_export_scene p)
         then call_exporter Called_export_scene (export_scene e) fp (settings_dict p) w1
         else call_exporter Called_export_geometry (export_geometry e) fp (settings_dict p) w1)"
  using assms
  by (simp add: execute_def save_ok settings_compression settings_scene Let_def)

lemma execute_import_fails:
  assumes "filepath p \<noteq> []" and "w_ok e (get_settings_fullpath e)"
    and "import_exporter e = Some ierr"
  shows "execute e w p =
     (w\<lparr>files := (files w)(get_settings_fullpath e \<mapsto> json_dump e (PDict (settings_dict p))),
        trace := trace w @ [Wrote (get_settings_fullpath e) (json_dump e (PDict (settings_dict p)))]\<rparr>,
      Some ierr)"
  using assms
  by (simp add: execute_def save_ok settings_compression Let_def)

text \<open>
  C9. The save is complete before the exporter is called: the exporter runs on the files
  that already hold the saved settings. When the exporter raises, \<^verbatim>\<open>execute\<close> raises
  the same exception and leaves the files as the exporter left them, with no write of
  its own after the call; so the settings file still holds the saved text whenever the
  exporter itself did not touch it. When already the import of the exporter package
  raises, \<^verbatim>\<open>execute\<close> raises that exception after the save and the files are the saved
  ones.
\<close>

theorem failed_export_keeps_saved_settings:
  assumes "filepath p \<noteq> []" and "w_ok e (get_settings_fullpath e)"
    and "text = json_dump e (PDict (settings_dict p))"
    and "saved = (files w)(get_settings_fullpath e \<mapsto> text)"
    and "(if truthy (option_export_scene p) then export_scene e else export_geometry e)
           (resolve_filepath e (filepath p) (option_compression p)) (settings_dict p) saved
         = (fs', Some err)"
  shows "fst (save_settings_export e w p)
           = w\<lparr>files := saved, trace := trace w @ [Wrote (get_settings_fullpath e) text]\<rparr>
     \<and> (import_exporter e = None \<longrightarrow>
          snd (execute e w p) = Some err
        \<and> files (fst (execute e w p)) = fs'
        \<and> trace (fst (execute e w p)) =
            trace w @
            [Wrote (get_settings_fullpath e) text,
             (if truthy (option_export_scene p) then Called_export_scene else Called_export_geometry)
               (resolve_filepath e (filepath p) (option_compression p)) (settings_dict p)]
        \<and> (fs' (get_settings_fullpath e) = saved (get_settings_fullpath e) \<longrightarrow>
             files (fst (execute e w p)) (get_settings_fullpath e) = Some text))
     \<and> (\<forall>ierr. import_exporter e = Some ierr \<longrightarrow>
          snd (execute e w p) = Some ierr
        \<and> files (fst (execute e w p)) = saved
        \<and> trace (fst (execute e w p)) = trace w @ [Wrote (get_settings_fullpath e) text])"
proof -
  have saving: "fst (save_settings_export e w p)
           = w\<lparr>files := saved, trace := trace w @ [Wrote (get_settings_fullpath e) text]\<rparr>"
    using assms(2-4) by (simp add: save_ok)
  have reached: "snd (execute e w p) = Some err
        \<and> files (fst (execute e w p)) = fs'
        \<and> trace (fst (execute e w p)) =
            trace w @
            [Wrote (get_settings_fullpath e) text,
             (if truthy (option_export_scene p) then Called_export_scene else Called_export_geometry)
               (resolve_filepath e (filepath p) (option_compression p)) (settings_dict p)]
        \<and> (fs' (get_settings_fullpath e) = saved (get_settings_fullpath e) \<longrightarrow>
             files (fst (execute e w p)) (get_settings_fullpath e) = Some text)"
    if "import_exporter e = None"
    using assms that
    by (simp add: execute_ok Let_def call_exporter_def split: prod.splits if_splits)
  have failed: "snd (execute e w p) = Some ierr
        \<and> files (fst (execute e w p)) = saved
        \<and> trace (fst (execute e w p)) = trace w @ [Wrote (get_settings_fullpath e) text]"
    if "import_exporter e = Some ierr" for ierr
    using assms(3,4) by (simp add: execute_import_fails [OF assms(1,2) that])
  show ?thesis
    apply (intro conjI)
      apply (rule saving)
     apply (rule impI)
     apply (rule reached)
     apply assumption
    apply (intro allI impI)
    apply (rule failed)
    apply assumption
    done
qed

theorem failed_export_keeps_saved_settings_witness:
  "import_exporter example_env = None
   \<and> filepath example_props \<noteq> [] \<and> w_ok example_env (get_settings_fullpath example_env)
   \<and> export_geometry example_env ''model.pack'' (settings_dict example_props)
        [''/tmp/three_settings_export.js'' \<mapsto> ''saved'']
      = ([''/tmp/three_settings_export.js'' \<mapsto> ''saved''], Some (OSError ''model.pack''))
   \<and> snd (execute example_env (example_world ''old text'') example_props) = Some (OSError ''model.pack'')
   \<and> files (fst (execute example_env (example_world ''old text'') example_props))
        ''/tmp/three_settings_export.js'' = Some ''saved''"
proof -
  let ?saved = "[''/tmp/three_settings_export.js'' \<mapsto> ''saved'']"
  have fp: "filepath example_props \<noteq> []"
    by (simp add: example_props_def)
  have ok: "w_ok example_env (get_settings_fullpath example_env)"
    by (simp add: example_env_def)
  have dump: "''saved'' = json_dump example_env (PDict (settings_dict example_props))"
    by (simp add: example_dump)
  have saved: "?saved = (files (example_world ''old text''))(get_settings_fullpath example_env \<mapsto> ''saved'')"
    by (simp add: example_world_def example_fullpath)
  have r: "resolve_filepath example_env (filepath example_props) (option_compression example_props) = ''model.pack''"
    by (simp add: resolve_filepath_def example_props_def example_env_def)
  have geo: "export_geometry example_env ''model.pack'' (settings_dict example_props) ?saved
      = (?saved, Some (OSError ''model.pack''))"
    by (simp add: example_env_def)
  have call: "(if truthy (option_export_scene example_props)
               then export_scene example_env else export_geometry example_env)
           (resolve_filepath example_env (filepath example_props) (option_compression example_props))
           (settings_dict example_props) ?saved
         = (?saved, Some (OSError ''model.pack''))"
    unfolding r using geo by (simp add: example_props_def)
  from failed_export_keeps_saved_settings [OF fp ok dump saved call] fp ok geo example_import
  show ?thesis
    by (simp add: example_fullpath)
qed


lemma settings_dict_get:
  shows "dict_get (settings_dict p) VERTICES dv = option_vertices p"
    "dict_get (settings_dict p) FACES dv = option_faces p"
    "dict_get (settings_dict p) NORMALS dv = option_normals p"
    "dict_get (settings_dict p) SKINNING dv = option_skinning p"
    "dict_get (settings_dict p) BONES dv = option_bones p"
    "dict_get (settings_dict p) INFLUENCES_PER_VERTEX dv = option_influences p"
    "dict_get (settings_dict p) GEOMETRY_TYPE dv = option_geometry_type p"
    "dict_get (settings_dict p) MATERIALS dv = option_materials p"
    "dict_get (settings_dict p) UVS dv = option_uv_coords p"
    "dict_get (settings_dict p) FACE_MATERIALS dv = option_face_materials p"
    "dict_get (settings_dict p) MAPS dv = option_maps p"
    "dict_get (settings_dict p) COLORS dv = option_colors p"
    "dict_get (settings_dict p) MIX_COLORS dv = option_mix_colors p"
    "dict_get (settings_dict p) SCALE dv = option_scale p"
    "dict_get (settings_dict p) ENABLE_PRECISION dv = option_round_off p"
    "dict_get (settings_dict p) PRECISION dv = option_round_value p"
    "dict_get (settings_dict p) LOGGING dv = option_logging p"
    "dict_get (settings_dict p) COMPRESSION dv = option_compression p"
    "dict_get (settings_dict p) INDENT dv = option_indent p"
    "dict_get (settings_dict p) COPY_TEXTURES dv = option_copy_textures p"
    "dict_get (settings_dict p) EMBED_ANIMATION dv = option_embed_animation p"
    "dict_get (settings_dict p) SCENE dv = option_export_scene p"
    "dict_get (settings_dict p) LIGHTS dv = option_lights p"
    "dict_get (settings_dict p) CAMERAS dv = option_cameras p"
    "dict_get (settings_dict p) MORPH_TARGETS dv = option_animation_morph p"
    "dict_get (settings_dict p) ANIMATION dv = option_animation_skeletal p"
    "dict_get (settings_dict p) FRAME_STEP dv = option_frame_step p"
    "dict_get (settings_dict p) FRAME_INDEX_AS_TIME dv = option_frame_index_as_time p"
  by (simp_all add: dict_get_def settings_dict_items constants_defs)

lemma read_settings_file:
  "files w (get_settings_fullpath e) = Some text \<Longrightarrow> r_ok e (get_settings_fullpath e) \<Longrightarrow>
   read_settings e w = json_load e text"
  by (simp add: read_settings_def)

lemma read_settings_no_file:
  "files w (get_settings_fullpath e) = None \<Longrightarrow> read_settings e w = Inr (PDict [])"
  by (simp add: read_settings_def)

lemma restore_dict:
  "read_settings e w = Inr (PDict d) \<Longrightarrow> catalog_complete e \<Longrightarrow>
   restore_settings_export e w p = run_stmts (restore_stmts e (PDict d)) p"
  by (simp add: restore_settings_export_def)

text \<open>
  C2. Saving the properties \<open>R\<close> and restoring from the world the save leaves gives \<open>R\<close>
  back, option by option (the restore does not assign \<^verbatim>\<open>filepath\<close>). The hypotheses are
  the ones the two functions depend on: the settings file can be written and read,
  \<^verbatim>\<open>json.load\<close> returns the dictionary that \<^verbatim>\<open>json.dump\<close> wrote, and the defaults table
  has the keys that the restore looks up.
\<close>

theorem save_restore_round_trip:
  assumes "w_ok e (get_settings_fullpath e)"
    and "r_ok e (get_settings_fullpath e)"
    and "json_load e (json_dump e (PDict (settings_dict R))) = Inr (PDict (settings_dict R))"
    and "catalog_complete e"
  shows "snd (save_settings_export e w R) = Inr (settings_dict R)
     \<and> restore_settings_export e (fst (save_settings_export e w R)) p0 = (R\<lparr>filepath := filepath p0\<rparr>, None)
     \<and> restore_settings_export e (fst (save_settings_export e w R)) R = (R, None)"
proof -
  let ?w1 = "fst (save_settings_export e w R)"
  have written: "files ?w1 (get_settings_fullpath e) = Some (json_dump e (PDict (settings_dict R)))"
    by (simp add: save_ok [OF assms(1)])
  have read: "read_settings e ?w1 = Inr (PDict (settings_dict R))"
    using read_settings_file [OF written assms(2)] assms(3) by simp
  have run: "restore_settings_export e ?w1 q = (R\<lparr>filepath := filepath q\<rparr>, None)" for q
    unfolding restore_dict [OF read assms(4)] restore_stmts_run [OF assms(4)] settings_dict_get
    by simp
  show ?thesis
    using run [of p0] run [of R] by (simp add: save_ok [OF assms(1)])
qed


theorem save_restore_round_trip_witness:
  "w_ok example_env (get_settings_fullpath example_env)
   \<and> r_ok example_env (get_settings_fullpath example_env)
   \<and> json_load example_env (json_dump example_env (PDict (settings_dict example_props)))
       = Inr (PDict (settings_dict example_props))
   \<and> catalog_complete example_env
   \<and> restore_settings_export example_env
        (fst (save_settings_export example_env (example_world ''partial'') example_props))
        (example_props\<lparr>option_scale := PFloat 7, option_compression := PStr NONE\<rparr>)
       = (example_props, None)"
proof -
  let ?q = "example_props\<lparr>option_scale := PFloat 7, option_compression := PStr NONE\<rparr>"
  have w: "w_ok example_env (get_settings_fullpath example_env)"
    by (simp add: example_env_def)
  have r: "r_ok example_env (get_settings_fullpath example_env)"
    by (simp add: example_env_def)
  have j: "json_load example_env (json_dump example_env (PDict (settings_dict example_props)))
       = Inr (PDict (settings_dict example_props))"
    unfolding example_dump by (rule example_load)
  have fp: "example_props\<lparr>filepath := filepath ?q\<rparr> = example_props"
    by simp
  from save_restore_round_trip [OF w r j example_complete, of "example_world ''partial''" ?q]
  have "restore_settings_export example_env
        (fst (save_settings_export example_env (example_world ''partial'') example_props)) ?q
       = (example_props\<lparr>filepath := filepath ?q\<rparr>, None)"
    by (elim conjE)
  then have restored: "restore_settings_export example_env
        (fst (save_settings_export example_env (example_world ''partial'') example_props)) ?q
       = (example_props, None)"
    unfolding fp .
  show ?thesis
    by (intro conjI w r j example_complete restored)
qed












text \<open>
  C8. When the settings file can be opened for writing, \<^verbatim>\<open>save_settings_export\<close>
  returns the settings dictionary and leaves its JSON text in the file
  \<^verbatim>\<open>three_settings_export.js\<close> of the temporary directory, whatever the file held
  before, and touches no other file. The dictionary is flat: it holds each option of the
  properties under the key of that option, 28 items with distinct keys, which are the 28
  keys of the persisted state file.
\<close>

theorem save_writes_settings_file:
  assumes "w_ok e (get_settings_fullpath e)"
  shows "\<exists>w' settings. save_settings_export e w p = (w', Inr settings)
     \<and> settings =
         [(''vertices'', option_vertices p),
          (''faces'', option_faces p),
          (''normals'', option_normals p),
          (''skinning'', option_skinning p),
          (''bones'', option_bones p),
          (''geometryType'', option_geometry_type p),
          (''materials'', option_materials p),
          (''uvCoords'', option_uv_coords p),
          (''faceMaterials'', option_face_materials p),
          (''maps'', option_maps p),
          (''colors'', option_colors p),
          (''mixColors'', option_mix_colors p),
          (''scale'', option_scale p),
          (''enablePrecision'', option_round_off p),
          (''precision'', option_round_value p),
          (''logging'', option_logging p),
          (''compression'', option_compression p),
          (''indent'', option_indent p),
          (''copyTextures'', option_copy_textures p),
          (''scene'', option_export_scene p),
          (''embedAnimation'', option_embed_animation p),
          (''lights'', option_lights p),
          (''cameras'', option_cameras p),
          (''morphTargets'', option_animation_morph p),
          (''animation'', option_animation_skeletal p),
          (''frameStep'', option_frame_step p),
          (''frameIndexAsTime'', option_frame_index_as_time p),
          (''influencesPerVertex'', option_influences p)]
     \<and> files w' (get_settings_fullpath e) = Some (json_dump e (PDict settings))
     \<and> (\<forall>q. q \<noteq> get_settings_fullpath e \<longrightarrow> files w' q = files w q)
     \<and> trace w' = trace w @ [Wrote (get_settings_fullpath e) (json_dump e (PDict settings))]
     \<and> get_settings_fullpath e = path_join (tempdir e) ''three_settings_export.js''
     \<and> length settings = 28
     \<and> distinct (map fst settings)
     \<and> set (map fst settings) =
         {''vertices'', ''faces'', ''normals'', ''skinning'', ''bones'', ''influencesPerVertex'',
          ''geometryType'', ''materials'', ''uvCoords'', ''faceMaterials'', ''maps'', ''colors'',
          ''mixColors'', ''scale'', ''enablePrecision'', ''precision'', ''logging'',
          ''compression'', ''indent'', ''copyTextures'', ''scene'', ''embedAnimation'', ''lights'',
          ''cameras'', ''morphTargets'', ''animation'', ''frameStep'', ''frameIndexAsTime''}"
proof -
  have items: "settings_dict p =
         [(''vertices'', option_vertices p),
          (''faces'', option_faces p),
          (''normals'', option_normals p),
          (''skinning'', option_skinning p),
          (''bones'', option_bones p),
          (''geometryType'', option_geometry_type p),
          (''materials'', option_materials p),
          (''uvCoords'', option_uv_coords p),
          (''faceMaterials'', option_face_materials p),
          (''maps'', option_maps p),
          (''colors'', option_colors p),
          (''mixColors'', option_mix_colors p),
          (''scale'', option_scale p),
          (''enablePrecision'', option_round_off p),
          (''precision'', option_round_value p),
          (''logging'', option_logging p),
          (''compression'', option_compression p),
          (''indent'', option_indent p),
          (''copyTextures'', option_copy_textures p),
          (''scene'', option_export_scene p),
          (''embedAnimation'', option_embed_animation p),
          (''lights'', option_lights p),
          (''cameras'', option_cameras p),
          (''morphTargets'', option_animation_morph p),
          (''animation'', option_animation_skeletal p),
          (''frameStep'', option_frame_step p),
          (''frameIndexAsTime'', option_frame_index_as_time p),
          (''influencesPerVertex'', option_influences p)]"
    unfolding settings_dict_items by (simp add: constants_defs)
  have keys: "set (map fst (settings_dict p)) =
         {''vertices'', ''faces'', ''normals'', ''skinning'', ''bones'', ''influencesPerVertex'',
          ''geometryType'', ''materials'', ''uvCoords'', ''faceMaterials'', ''maps'', ''colors'',
          ''mixColors'', ''scale'', ''enablePrecision'', ''precision'', ''logging'',
          ''compression'', ''indent'', ''copyTextures'', ''scene'', ''embedAnimation'', ''lights'',
          ''cameras'', ''morphTargets'', ''animation'', ''frameStep'', ''frameIndexAsTime''}"
    unfolding settings_keys by (simp add: insert_commute)
  have dist: "distinct (map fst (settings_dict p))"
    unfolding settings_keys by simp
  have len: "length (settings_dict p) = 28"
    by (simp add: settings_dict_items)
  have path: "get_settings_fullpath e = path_join (tempdir e) ''three_settings_export.js''"
    by (simp add: get_settings_fullpath_def SETTINGS_FILE_EXPORT_def)
  let ?w' = "w\<lparr>files := (files w)(get_settings_fullpath e \<mapsto> json_dump e (PDict (settings_dict p))),
        trace := trace w @ [Wrote (get_settings_fullpath e) (json_dump e (PDict (settings_dict p)))]\<rparr>"
  have fs: "files ?w' (get_settings_fullpath e) = Some (json_dump e (PDict (settings_dict p)))"
    by simp
  have others: "\<forall>q. q \<noteq> get_settings_fullpath e \<longrightarrow> files ?w' q = files w q"
    by simp
  have tr: "trace ?w' = trace w @ [Wrote (get_settings_fullpath e) (json_dump e (PDict (settings_dict p)))]"
    by simp
  show ?thesis
    apply (rule exI [of _ ?w'])
    apply (rule exI [of _ "settings_dict p"])
    apply (intro conjI)
            apply (rule save_ok [OF assms])
           apply (rule items)
          apply (rule fs)
         apply (rule others)
        apply (rule tr)
       apply (rule path)
      apply (rule len)
     apply (rule dist)
    apply (rule keys)
    done
qed

theorem save_writes_settings_file_witness:
  "w_ok example_env (get_settings_fullpath example_env)
   \<and> snd (save_settings_export example_env (example_world ''old text'') example_props)
       = Inr [(''vertices'', PBool True), (''faces'', PBool True), (''normals'', PBool True),
              (''skinning'', PBool False), (''bones'', PBool False), (''geometryType'', PStr ''geometry''),
              (''materials'', PBool False), (''uvCoords'', PBool True), (''faceMaterials'', PBool False),
              (''maps'', PBool False), (''colors'', PBool False), (''mixColors'', PBool False),
              (''scale'', PFloat 2), (''enablePrecision'', PBool True), (''precision'', PInt 6),
              (''logging'', PStr ''debug''), (''compression'', PStr ''msgpack''), (''indent'', PBool True),
              (''copyTextures'', PBool True), (''scene'', PBool False), (''embedAnimation'', PBool True),
              (''lights'', PBool False), (''cameras'', PBool False), (''morphTargets'', PBool False),
              (''animation'', PStr ''off''), (''frameStep'', PInt 1), (''frameIndexAsTime'', PBool False),
              (''influencesPerVertex'', PInt 2)]
   \<and> files (fst (save_settings_export example_env (example_world ''old text'') example_props))
        ''/tmp/three_settings_export.js'' = Some ''saved''"
proof -
  have ok: "w_ok example_env (get_settings_fullpath example_env)"
    by (simp add: example_env_def)
  from save_writes_settings_file [OF ok, of "example_world ''old text''" example_props]
  obtain w' settings
    where run: "save_settings_export example_env (example_world ''old text'') example_props = (w', Inr settings)"
      and items: "settings =
         [(''vertices'', option_vertices example_props),
          (''faces'', option_faces example_props),
          (''normals'', option_normals example_props),
          (''skinning'', option_skinning example_props),
          (''bones'', option_bones example_props),
          (''geometryType'', option_geometry_type example_props),
          (''materials'', option_materials example_props),
          (''uvCoords'', option_uv_coords example_props),
          (''faceMaterials'', option_face_materials example_props),
          (''maps'', option_maps example_props),
          (''colors'', option_colors example_props),
          (''mixColors'', option_mix_colors example_props),
          (''scale'', option_scale example_props),
          (''enablePrecision'', option_round_off example_props),
          (''precision'', option_round_value example_props),
          (''logging'', option_logging example_props),
          (''compression'', option_compression example_props),
          (''indent'', option_indent example_props),
          (''copyTextures'', option_copy_textures example_props),
          (''scene'', option_export_scene example_props),
          (''embedAnimation'', option_embed_animation example_props),
          (''lights'', option_lights example_props),
          (''cameras'', option_cameras example_props),
          (''morphTargets'', option_animation_morph example_props),
          (''animation'', option_animation_skeletal example_props),
          (''frameStep'', option_frame_step example_props),
          (''frameIndexAsTime'', option_frame_index_as_time example_props),
          (''influencesPerVertex'', option_influences example_props)]"
      and written: "files w' (get_settings_fullpath example_env) = Some (json_dump example_env (PDict settings))"
    by (elim exE conjE)
  have same: "settings = example_settings"
    unfolding items by (simp add: example_props_def example_settings_def constants_defs)
  have dumped: "json_dump example_env (PDict settings) = ''saved''"
    unfolding same by (simp add: example_env_def)
  have a: "snd (save_settings_export example_env (example_world ''old text'') example_props) = Inr example_settings"
    unfolding run same by simp
  have b: "files (fst (save_settings_export example_env (example_world ''old text'') example_props))
        ''/tmp/three_settings_export.js'' = Some ''saved''"
    unfolding run using written unfolding dumped example_fullpath by simp
  show ?thesis
    using ok a b unfolding example_settings_def by (intro conjI)
qed

text \<open>
  C10. An export that reaches the exporter (it has a path, its settings file can be
  written and the exporter package imports) calls exactly one function of the exporter
  after the save: when the value under the scene key of the saved settings is true, the
  files and the outcome of \<^verbatim>\<open>execute\<close> are the ones \<^verbatim>\<open>export_scene\<close> gives on the saved
  files, otherwise the ones \<^verbatim>\<open>export_geometry\<close> gives. The function gets the resolved
  path and the dictionary whose JSON text was just written.
\<close>

theorem execute_calls_one_exporter:
  assumes "filepath p \<noteq> []" and "w_ok e (get_settings_fullpath e)"
    and "import_exporter e = None"
    and "text = json_dump e (PDict (settings_dict p))"
    and "saved = (files w)(get_settings_fullpath e \<mapsto> text)"
    and "fp = resolve_filepath e (filepath p) (option_compression p)"
  shows "save_settings_export e w p
           = (w\<lparr>files := saved, trace := trace w @ [Wrote (get_settings_fullpath e) text]\<rparr>,
              Inr (settings_dict p))
     \<and> map_of (settings_dict p) SCENE = Some (option_export_scene p)
     \<and> map_of (settings_dict p) COMPRESSION = Some (option_compression p)
     \<and> (truthy (option_export_scene p) \<longrightarrow>
            files (fst (execute e w p)) = fst (export_scene e fp (settings_dict p) saved)
          \<and> snd (execute e w p) = snd (export_scene e fp (settings_dict p) saved)
          \<and> trace (fst (execute e w p)) =
              trace w @ [Wrote (get_settings_fullpath e) text, Called_export_scene fp (settings_dict p)])
     \<and> (\<not> truthy (option_export_scene p) \<longrightarrow>
            files (fst (execute e w p)) = fst (export_geometry e fp (settings_dict p) saved)
          \<and> snd (execute e w p) = snd (export_geometry e fp (settings_dict p) saved)
          \<and> trace (fst (execute e w p)) =
              trace w @ [Wrote (get_settings_fullpath e) text, Called_export_geometry fp (settings_dict p)])"
proof -
  have saving: "save_settings_export e w p
           = (w\<lparr>files := saved, trace := trace w @ [Wrote (get_settings_fullpath e) text]\<rparr>,
              Inr (settings_dict p))"
    using assms(2,4,5) by (simp add: save_ok)
  have scene: "files (fst (execute e w p)) = fst (export_scene e fp (settings_dict p) saved)
          \<and> snd (execute e w p) = snd (export_scene e fp (settings_dict p) saved)
          \<and> trace (fst (execute e w p)) =
              trace w @ [Wrote (get_settings_fullpath e) text, Called_export_scene fp (settings_dict p)]"
    if "truthy (option_export_scene p)"
    using that assms(4-6)
    by (simp add: execute_ok [OF assms(1-3)] Let_def call_exporter_def split: prod.splits)
  have geometry: "files (fst (execute e w p)) = fst (export_geometry e fp (settings_dict p) saved)
          \<and> snd (execute e w p) = snd (export_geometry e fp (settings_dict p) saved)
          \<and> trace (fst (execute e w p)) =
              trace w @ [Wrote (get_settings_fullpath e) text, Called_export_geometry fp (settings_dict p)]"
    if "\<not> truthy (option_export_scene p)"
    using that assms(4-6)
    by (simp add: execute_ok [OF assms(1-3)] Let_def call_exporter_def split: prod.splits)
  show ?thesis
    apply (intro conjI)
        apply (rule saving)
       apply (rule settings_scene)
      apply (rule settings_compression)
     apply (rule impI)
     apply (rule scene)
     apply assumption
    apply (rule impI)
    apply (rule geometry)
    apply assumption
    done
qed

theorem execute_calls_one_exporter_witness:
  "filepath example_props \<noteq> [] \<and> w_ok example_env (get_settings_fullpath example_env)
   \<and> import_exporter example_env = None
   \<and> truthy (option_export_scene (example_props\<lparr>option_export_scene := PBool True\<rparr>))
   \<and> execute example_env (example_world ''old text'') (example_props\<lparr>option_export_scene := PBool True\<rparr>)
      = (\<lparr>files = [''/tmp/three_settings_export.js'' \<mapsto> ''other'', ''model.pack'' \<mapsto> ''scene''],
          trace = [Wrote ''/tmp/three_settings_export.js'' ''other'',
                   Called_export_scene ''model.pack''
                     (settings_dict (example_props\<lparr>option_export_scene := PBool True\<rparr>))]\<rparr>,
         None)
   \<and> \<not> truthy (option_export_scene example_props)
   \<and> execute example_env (example_world ''old text'') example_props
      = (\<lparr>files = [''/tmp/three_settings_export.js'' \<mapsto> ''saved''],
          trace = [Wrote ''/tmp/three_settings_export.js'' ''saved'',
                   Called_export_geometry ''model.pack'' (settings_dict example_props)]\<rparr>,
         Some (OSError ''model.pack''))"
proof -
  let ?q = "example_props\<lparr>option_export_scene := PBool True\<rparr>"
  let ?f = "''/tmp/three_settings_export.js''"
  have fp: "filepath example_props \<noteq> []" "filepath ?q \<noteq> []"
    by (simp_all add: example_props_def)
  have ok: "w_ok example_env (get_settings_fullpath example_env)"
    by (simp add: example_env_def)
  have t: "truthy (option_export_scene ?q)" "\<not> truthy (option_export_scene example_props)"
    by (simp_all add: example_props_def)
  have neq: "settings_dict ?q \<noteq> example_settings"
    by (simp add: settings_dict_items example_props_def example_settings_def constants_defs)
  have dump_q: "''other'' = json_dump example_env (PDict (settings_dict ?q))"
    using neq by (simp add: example_env_def)
  have dump_p: "''saved'' = json_dump example_env (PDict (settings_dict example_props))"
    by (simp add: example_dump)
  have saved_q: "[?f \<mapsto> ''other''] = (files (example_world ''old text''))(get_settings_fullpath example_env \<mapsto> ''other'')"
    by (simp add: example_world_def example_fullpath)
  have saved_p: "[?f \<mapsto> ''saved''] = (files (example_world ''old text''))(get_settings_fullpath example_env \<mapsto> ''saved'')"
    by (simp add: example_world_def example_fullpath)
  have r_q: "''model.pack'' = resolve_filepath example_env (filepath ?q) (option_compression ?q)"
    by (simp add: resolve_filepath_def example_props_def example_env_def)
  have r_p: "''model.pack'' = resolve_filepath example_env (filepath example_props) (option_compression example_props)"
    by (simp add: resolve_filepath_def example_props_def example_env_def)
  have scene: "export_scene example_env ''model.pack'' (settings_dict ?q) [?f \<mapsto> ''other'']
      = ([?f \<mapsto> ''other'', ''model.pack'' \<mapsto> ''scene''], None)"
    by (simp add: example_env_def)
  have geometry: "export_geometry example_env ''model.pack'' (settings_dict example_props) [?f \<mapsto> ''saved'']
      = ([?f \<mapsto> ''saved''], Some (OSError ''model.pack''))"
    by (simp add: example_env_def)
  from execute_calls_one_exporter [OF fp(2) ok example_import dump_q saved_q r_q] t(1)
  have "files (fst (execute example_env (example_world ''old text'') ?q)) = [?f \<mapsto> ''other'', ''model.pack'' \<mapsto> ''scene'']
      \<and> snd (execute example_env (example_world ''old text'') ?q) = None
      \<and> trace (fst (execute example_env (example_world ''old text'') ?q)) =
          trace (example_world ''old text'') @ [Wrote (get_settings_fullpath example_env) ''other'',
            Called_export_scene ''model.pack'' (settings_dict ?q)]"
    unfolding scene by simp
  then have run_q: "execute example_env (example_world ''old text'') ?q
      = (\<lparr>files = [?f \<mapsto> ''other'', ''model.pack'' \<mapsto> ''scene''],
          trace = [Wrote ?f ''other'', Called_export_scene ''model.pack'' (settings_dict ?q)]\<rparr>, None)"
    unfolding example_fullpath by (simp add: prod_eq_iff example_world_def world.equality)
  from execute_calls_one_exporter [OF fp(1) ok example_import dump_p saved_p r_p] t(2)
  have "files (fst (execute example_env (example_world ''old text'') example_props)) = [?f \<mapsto> ''saved'']
      \<and> snd (execute example_env (example_world ''old text'') example_props) = Some (OSError ''model.pack'')
      \<and> trace (fst (execute example_env (example_world ''old text'') example_props)) =
          trace (example_world ''old text'') @ [Wrote (get_settings_fullpath example_env) ''saved'',
            Called_export_geometry ''model.pack'' (settings_dict example_props)]"
    unfolding geometry by simp
  then have run_p: "execute example_env (example_world ''old text'') example_props
      = (\<lparr>files = [?f \<mapsto> ''saved''],
          trace = [Wrote ?f ''saved'', Called_export_geometry ''model.pack'' (settings_dict example_props)]\<rparr>,
         Some (OSError ''model.pack''))"
    unfolding example_fullpath by (simp add: prod_eq_iff example_world_def world.equality)
  show ?thesis
    by (intro conjI fp(1) ok example_import t run_q run_p)
qed









subsection \<open>A text outside JSON that is loaded\<close>


lemma valid_scale: "valid_json ''{\"scale\": 3.0}''"
  unfolding valid_json_def
  by (rule exI [of _ "Suc (Suc (Suc 0))"])
    (simp add: json_text_def skip_ws_def json_ws_def skip_number_def skip_int_def
      skip_frac_def skip_exp_def skip_digits1_def json_digit_def)


end
